theory Spec2Isabelle
  imports Main
begin

section \<open>PagerDutyService: a shallow embedding of pagerDutyService.ts\<close>

text \<open>
  The file under verification is \<^verbatim>\<open>apps/passport-server/src/services/pagerDutyService.ts\<close>:
  a class with two asynchronous methods, \<^verbatim>\<open>triggerIncident\<close> and \<^verbatim>\<open>resolveIncident\<close>, and
  the factory \<^verbatim>\<open>startPagerDutyService\<close>. Everything the methods do besides returning a value
  (log lines, span annotations, the HTTP call, drawing a uuid) is written into an explicit
  \<open>world\<close> that every operation takes and returns. A promise that rejects, like a
  \<^verbatim>\<open>throw\<close>, is the left injection of a sum; a promise that fulfils is the right one.
\<close>

subsection \<open>JavaScript values and errors\<close>

text \<open>
  The response body of the HTTP client is untyped (\<^verbatim>\<open>any\<close>), and the request is an object
  literal, so both are values of a small JSON-like type. An object is an association list;
  the first binding of a key is the one a read sees.
\<close>

datatype jsval =
    JUndefined
  | JNull
  | JBool bool
  | JNum int
  | JStr string
  | JArr "jsval list"
  | JObj "(string \<times> jsval) list"

text \<open>
  What can be thrown: an \<^verbatim>\<open>Error\<close> made by the code itself, the \<^verbatim>\<open>TypeError\<close> of a
  property read on \<^verbatim>\<open>undefined\<close> or \<^verbatim>\<open>null\<close>, and whatever value the transport throws.
\<close>

datatype error =
    Error string
  | TypeError string
  | Thrown jsval

text \<open>
  \<^verbatim>\<open>v.k\<close> for a property name \<open>k\<close> that no built-in prototype defines (the names read
  in this file are \<^verbatim>\<open>incident\<close>, \<^verbatim>\<open>id\<close> and \<^verbatim>\<open>incident_key\<close>): a read on
  \<^verbatim>\<open>undefined\<close> or \<^verbatim>\<open>null\<close> throws, a read of a missing property of an object, and
  any such read on a primitive or an array, gives \<^verbatim>\<open>undefined\<close>.
\<close>

fun getProp :: "jsval \<Rightarrow> string \<Rightarrow> error + jsval" where
  "getProp JUndefined k =
     Inl (TypeError (''Cannot read properties of undefined (reading '' @ [CHR 0x27] @ k @ [CHR 0x27] @ '')''))"
| "getProp JNull k =
     Inl (TypeError (''Cannot read properties of null (reading '' @ [CHR 0x27] @ k @ [CHR 0x27] @ '')''))"
| "getProp (JObj kvs) k = Inr (case map_of kvs k of None \<Rightarrow> JUndefined | Some v \<Rightarrow> v)"
| "getProp (JBool b) k = Inr JUndefined"
| "getProp (JNum n) k = Inr JUndefined"
| "getProp (JStr s) k = Inr JUndefined"
| "getProp (JArr vs) k = Inr JUndefined"

subsection \<open>The world: the external collaborators as sinks\<close>

text \<open>A trace span, named by the service and the method \<^verbatim>\<open>traced\<close> was called with.\<close>

datatype span = Span string string

text \<open>
  One entry per observable effect, in the order the effects happen: a call of
  \<^verbatim>\<open>logger\<close> (its string arguments and, when given, the error passed last), a call of
  \<^verbatim>\<open>traceFlattenedObject\<close>, a call of \<^verbatim>\<open>setError\<close>, and the two HTTP calls the client
  can issue (path and request).
\<close>

datatype event =
    Logged "string list" "error option"
  | TraceFlattened span jsval
  | SetError error span
  | HttpPost string jsval
  | HttpPut string jsval

record world =
  events :: "event list"
  uuid_count :: nat

record response =
  status :: int
  data :: jsval

text \<open>
  The client object that \<^verbatim>\<open>api({ token })\<close> of \<^verbatim>\<open>@pagerduty/pdjs\<close> returns: for a path and
  a request, each method either throws or returns a response object with a status and a
  body. Any behaviour of the transport is one such pair of functions.
\<close>

record pd_api =
  post :: "string \<Rightarrow> jsval \<Rightarrow> error + response"
  put :: "string \<Rightarrow> jsval \<Rightarrow> error + response"

text \<open>
  The imports of the module that are not code of this repository's file, taken as
  parameters: \<^verbatim>\<open>uuid\<close> (\<open>ext_uuid n\<close> is the token the \<open>n\<close>-th call draws), \<^verbatim>\<open>str\<close> of
  \<^verbatim>\<open>@pcd/util\<close> and the client factory \<^verbatim>\<open>api\<close> of \<^verbatim>\<open>@pagerduty/pdjs\<close> (from the token).
\<close>

record externals =
  ext_uuid :: "nat \<Rightarrow> string"
  ext_str :: "jsval \<Rightarrow> string"
  ext_api :: "string \<Rightarrow> pd_api"

definition uuid :: "externals \<Rightarrow> world \<Rightarrow> string \<times> world" where
  "uuid ext w = (ext_uuid ext (uuid_count w), w\<lparr>uuid_count := Suc (uuid_count w)\<rparr>)"

definition emit :: "event \<Rightarrow> world \<Rightarrow> world" where
  "emit e w = w\<lparr>events := events w @ [e]\<rparr>"

definition logger :: "string list \<Rightarrow> error option \<Rightarrow> world \<Rightarrow> world" where
  \<comment> \<open>Modelled from the spec: \<^verbatim>\<open>../util/logger\<close> is not among the sources; the spec treats
      the logging subsystem as a line-oriented sink, so a call records its arguments.\<close>
  "logger args e w = emit (Logged args e) w"

definition traceFlattenedObject :: "span \<Rightarrow> jsval \<Rightarrow> world \<Rightarrow> world" where
  \<comment> \<open>Modelled from the spec: \<^verbatim>\<open>./telemetryService\<close> is not among the sources; the spec treats
      the tracing subsystem as a span-recording sink, so a call records the object on the span.\<close>
  "traceFlattenedObject sp obj w = emit (TraceFlattened sp obj) w"

definition setError :: "error \<Rightarrow> span \<Rightarrow> world \<Rightarrow> world" where
  \<comment> \<open>Modelled from the spec: \<^verbatim>\<open>./telemetryService\<close> is not among the sources; a call attaches
      the error to the span.\<close>
  "setError e sp w = emit (SetError e sp) w"

definition traced :: "string \<Rightarrow> string \<Rightarrow> (span \<Rightarrow> world \<Rightarrow> 'a \<times> world) \<Rightarrow> world \<Rightarrow> 'a \<times> world" where
  \<comment> \<open>Modelled from the spec: \<^verbatim>\<open>./telemetryService\<close> is not among the sources; \<^verbatim>\<open>traced\<close> runs
      the callback on the span of the named operation and returns what the callback returns.\<close>
  "traced service method func w = func (Span service method) w"

text \<open>The two calls through the client: the call is recorded, then the transport answers.\<close>

definition api_post :: "pd_api \<Rightarrow> string \<Rightarrow> jsval \<Rightarrow> world \<Rightarrow> (error + response) \<times> world" where
  "api_post a path request w = (post a path request, emit (HttpPost path request) w)"

definition api_put :: "pd_api \<Rightarrow> string \<Rightarrow> jsval \<Rightarrow> world \<Rightarrow> (error + response) \<times> world" where
  "api_put a path request w = (put a path request, emit (HttpPut path request) w)"

definition http_calls :: "event list \<Rightarrow> event list" where
  "http_calls evs =
     filter (\<lambda>e. case e of HttpPost p r \<Rightarrow> True | HttpPut p r \<Rightarrow> True | _ \<Rightarrow> False) evs"

subsection \<open>Constants and the escalation-policy table (lines 8--19)\<close>

definition SERVICE_NAME :: string where
  "SERVICE_NAME = ''PagerDutyService''"

definition LOG_TAG :: string where
  "LOG_TAG = ''['' @ SERVICE_NAME @ '']''"

text \<open>
  Modelled from the spec: the declaration of the enumeration \<^verbatim>\<open>IncidentPolicy\<close> (package
  \<^verbatim>\<open>@pcd/passport-interface\<close>) is not among the sources. The spec has every enumerated
  policy value own exactly one identifier in the table, with a total lookup, and the table
  of the source names three members. The type of the table, \<^verbatim>\<open>Record<IncidentPolicy, string>\<close>,
  says the same: it demands one entry for every member and admits no other key.
\<close>

datatype IncidentPolicy = Everyone | JustIvan | JustRichard

definition ESCALATION_POLICIES :: "(IncidentPolicy \<times> string) list" where
  "ESCALATION_POLICIES =
     [(Everyone, ''P6SUJ1N''),
      (JustIvan, ''P3PE907''),
      (JustRichard, ''P88YCS9'')]"

text \<open>An index into the table; a key the table lacks would read \<^verbatim>\<open>undefined\<close>.\<close>

definition getPolicyId :: "IncidentPolicy \<Rightarrow> jsval" where
  "getPolicyId name =
     (case map_of ESCALATION_POLICIES name of None \<Rightarrow> JUndefined | Some pid \<Rightarrow> JStr pid)"

subsection \<open>The class (lines 21--28)\<close>

record PagerDutyService =
  api :: pd_api
  serviceId :: string

definition new_PagerDutyService :: "externals \<Rightarrow> string \<Rightarrow> string \<Rightarrow> PagerDutyService" where
  "new_PagerDutyService ext token sid = \<lparr>api = ext_api ext token, serviceId = sid\<rparr>"

text \<open>The handle \<^verbatim>\<open>{ id, key }\<close>; both fields come out of the untyped response body.\<close>

record handle =
  id' :: jsval
  key :: jsval

definition quoted :: "string \<Rightarrow> string" where
  \<comment> \<open>\<^verbatim>\<open>'${s}'\<close> inside a template literal\<close>
  "quoted s = [CHR 0x27] @ s @ [CHR 0x27]"

subsection \<open>triggerIncident (lines 30--91)\<close>

text \<open>The object literal of lines 42--65.\<close>

definition triggerIncident_request :: "PagerDutyService \<Rightarrow> string \<Rightarrow> string \<Rightarrow> jsval \<Rightarrow> string \<Rightarrow> jsval" where
  "triggerIncident_request this title message policyId incidentKey =
     JObj
      [(''headers'', JObj [(''From'', JStr ''ivan@0xparc.org'')]),
       (''data'', JObj
         [(''incident'', JObj
            [(''type'', JStr ''incident''),
             (''title'', JStr title),
             (''service'', JObj
                [(''id'', JStr (serviceId this)),
                 (''type'', JStr ''service_reference'')]),
             (''urgency'', JStr ''high''),
             (''incident_key'', JStr incidentKey),
             (''body'', JObj
                [(''type'', JStr ''incident_body''),
                 (''details'', JStr message)])]),
          (''escalation_policy'', JObj [(''id'', policyId)])])]"

text \<open>
  The \<^verbatim>\<open>try\<close> block, lines 38--80. Besides its outcome (what it throws, or the handle it
  returns) it gives back the value the variable \<^verbatim>\<open>incidentKey\<close> holds when the block is
  left, which the handler reads. The assignment of line 38 comes first and cannot throw, so
  on every way out the variable holds the given key or the token drawn for it.
\<close>

definition triggerIncident_try ::
  "externals \<Rightarrow> PagerDutyService \<Rightarrow> span \<Rightarrow> string \<Rightarrow> string option \<Rightarrow> IncidentPolicy option \<Rightarrow>
   string option \<Rightarrow> world \<Rightarrow> (error + handle) \<times> string \<times> world" where
  "triggerIncident_try ext this sp title message policyName incidentKey w0 =
     (let (incidentKey', w1) = (case incidentKey of Some k \<Rightarrow> (k, w0) | None \<Rightarrow> uuid ext w0);
          message' = (case message of Some m \<Rightarrow> m | None \<Rightarrow> '''');
          policyId = getPolicyId (case policyName of Some p \<Rightarrow> p | None \<Rightarrow> Everyone);
          w2 = logger [LOG_TAG, ''triggering incident '' @ quoted title @ '' ('' @ quoted incidentKey' @ '')''] None w1;
          request = triggerIncident_request this title message' policyId incidentKey';
          w3 = traceFlattenedObject sp (JObj [(''request'', request)]) w2;
          (answer, w4) = api_post (api this) ''/incidents'' request w3
      in case answer of
           Inl e \<Rightarrow> (Inl e, incidentKey', w4)
         | Inr res \<Rightarrow>
             (let responseBody = data res;
                  w5 = traceFlattenedObject sp (JObj [(''responseBody'', responseBody)]) w4
              in if status res \<noteq> 201
                 then (Inl (Error (''failed to invoke pagerduty ('' @ title @ ''): '' @ ext_str ext responseBody)),
                       incidentKey', w5)
                 else (case getProp responseBody ''incident'' of
                         Inl e \<Rightarrow> (Inl e, incidentKey', w5)
                       | Inr incident \<Rightarrow>
                          (case getProp incident ''id'' of
                             Inl e \<Rightarrow> (Inl e, incidentKey', w5)
                           | Inr i \<Rightarrow>
                              (case getProp incident ''incident_key'' of
                                 Inl e \<Rightarrow> (Inl e, incidentKey', w5)
                               | Inr k \<Rightarrow> (Inr \<lparr>id' = i, key = k\<rparr>, incidentKey', w5))))))"

text \<open>The handler, lines 81--89: log, attach the error to the span, return \<^verbatim>\<open>undefined\<close>.\<close>

definition triggerIncident_catch ::
  "span \<Rightarrow> string \<Rightarrow> string \<Rightarrow> error \<Rightarrow> world \<Rightarrow> (error + handle option) \<times> world" where
  "triggerIncident_catch sp title incidentKey e w =
     (let w1 = logger [LOG_TAG, ''failed to start incident '' @ title @ '' ('' @ quoted incidentKey @ '')''] (Some e) w;
          w2 = setError e sp w1
      in (Inr None, w2))"

definition triggerIncident ::
  "externals \<Rightarrow> PagerDutyService \<Rightarrow> string \<Rightarrow> string option \<Rightarrow> IncidentPolicy option \<Rightarrow>
   string option \<Rightarrow> world \<Rightarrow> (error + handle option) \<times> world" where
  "triggerIncident ext this title message policyName incidentKey =
     traced ''PagerDutyService'' ''triggerIncident'' (\<lambda>sp w.
       case triggerIncident_try ext this sp title message policyName incidentKey w of
         (Inr h, incidentKey', w') \<Rightarrow> (Inr (Some h), w')
       | (Inl e, incidentKey', w') \<Rightarrow> triggerIncident_catch sp title incidentKey' e w')"

subsection \<open>resolveIncident (lines 93--123)\<close>

definition resolveIncident_request :: jsval where
  "resolveIncident_request =
     JObj
      [(''headers'', JObj [(''From'', JStr ''ivan@0xparc.org'')]),
       (''data'', JObj
         [(''incident'', JObj
            [(''type'', JStr ''incident_reference''),
             (''status'', JStr ''resolved'')])])]"

text \<open>The \<^verbatim>\<open>try\<close> block, lines 96--117.\<close>

definition resolveIncident_try ::
  "externals \<Rightarrow> PagerDutyService \<Rightarrow> span \<Rightarrow> string \<Rightarrow> world \<Rightarrow> (error + unit) \<times> world" where
  "resolveIncident_try ext this sp i w0 =
     (let url = ''/incidents/'' @ i;
          w1 = logger [LOG_TAG, ''resolving incident '' @ quoted i @ '' by hitting '' @ quoted url] None w0;
          request = resolveIncident_request;
          w2 = traceFlattenedObject sp (JObj [(''request'', request)]) w1;
          (answer, w3) = api_put (api this) url request w2
      in case answer of
           Inl e \<Rightarrow> (Inl e, w3)
         | Inr res \<Rightarrow>
             (let responseBody = data res;
                  w4 = traceFlattenedObject sp (JObj [(''responseBody'', responseBody)]) w3
              in if status res \<noteq> 200
                 then (Inl (Error (''failed to resolve pagerduty ('' @ i @ ''): '' @ ext_str ext responseBody)), w4)
                 else (Inr (), logger [LOG_TAG, ''resolved incident '' @ quoted i] None w4)))"

text \<open>The handler, lines 118--121: attach the error to the span, then log.\<close>

definition resolveIncident_catch :: "span \<Rightarrow> string \<Rightarrow> error \<Rightarrow> world \<Rightarrow> (error + unit) \<times> world" where
  "resolveIncident_catch sp i e w =
     (let w1 = setError e sp w;
          w2 = logger [LOG_TAG, ''failed to start incident '' @ i] (Some e) w1
      in (Inr (), w2))"

definition resolveIncident ::
  "externals \<Rightarrow> PagerDutyService \<Rightarrow> string \<Rightarrow> world \<Rightarrow> (error + unit) \<times> world" where
  "resolveIncident ext this i =
     traced ''PagerDutyService'' ''resolveIncident'' (\<lambda>sp w.
       case resolveIncident_try ext this sp i w of
         (Inr u, w') \<Rightarrow> (Inr u, w')
       | (Inl e, w') \<Rightarrow> resolveIncident_catch sp i e w')"

subsection \<open>startPagerDutyService (lines 126--147)\<close>

text \<open>
  \<^verbatim>\<open>process.env\<close> maps a variable's name to its string, when the variable is set. The
  test \<^verbatim>\<open>!process.env.X\<close> holds when the variable is unset and also when it is set to the
  empty string; \<open>env_truthy\<close> gives the value in the remaining case.
\<close>

definition env_truthy :: "string option \<Rightarrow> string option" where
  "env_truthy v = (case v of None \<Rightarrow> None | Some s \<Rightarrow> if s = '''' then None else Some s)"

definition startPagerDutyService ::
  "externals \<Rightarrow> (string \<rightharpoonup> string) \<Rightarrow> world \<Rightarrow> PagerDutyService option \<times> world" where
  "startPagerDutyService ext env w0 =
     (let w1 = logger [''[INIT] attempting to start pager duty''] None w0
      in case env_truthy (env ''PAGER_DUTY_API_KEY'') of
           None \<Rightarrow>
             (None, logger [''[INIT] can't start pager duty - missing environment variable PAGER_DUTY_API_KEY''] None w1)
         | Some token \<Rightarrow>
            (case env_truthy (env ''PAGER_DUTY_SERVICE_ID'') of
               None \<Rightarrow>
                 (None, logger [''[INIT] can't start pager duty - missing environment variable PAGER_DUTY_API_KEY''] None w1)
             | Some sid \<Rightarrow> (Some (new_PagerDutyService ext token sid), w1)))"

subsection \<open>Test doubles\<close>

text \<open>
  Concrete collaborators for running the operations: a transport that gives one fixed
  answer to every call, a service built on it, externals whose uuid source never repeats,
  and an empty world.
\<close>

definition stub_api :: "(error + response) \<Rightarrow> pd_api" where
  "stub_api answer = \<lparr>post = (\<lambda>path request. answer), put = (\<lambda>path request. answer)\<rparr>"

definition stub_service :: "(error + response) \<Rightarrow> PagerDutyService" where
  "stub_service answer = \<lparr>api = stub_api answer, serviceId = ''SVC1''\<rparr>"

definition stub_ext :: externals where
  "stub_ext =
     \<lparr>ext_uuid = (\<lambda>n. ''uuid-'' @ replicate n (CHR ''x'')),
      ext_str = (\<lambda>v. ''<body>''),
      ext_api = (\<lambda>token. stub_api (Inl (Error ''connection refused'')))\<rparr>"

definition world0 :: world where
  "world0 = \<lparr>events = [], uuid_count = 0\<rparr>"

section \<open>Properties\<close>

lemmas sink_defs = traced_def logger_def traceFlattenedObject_def setError_def emit_def
  api_post_def api_put_def uuid_def

lemmas trigger_defs = triggerIncident_def triggerIncident_try_def triggerIncident_catch_def

lemmas resolve_defs = resolveIncident_def resolveIncident_try_def resolveIncident_catch_def

lemmas stub_defs = stub_api_def stub_service_def stub_ext_def world0_def

lemma getPolicyId_cases:
  "getPolicyId Everyone = JStr ''P6SUJ1N''"
  "getPolicyId JustIvan = JStr ''P3PE907''"
  "getPolicyId JustRichard = JStr ''P88YCS9''"
  by (simp_all add: getPolicyId_def ESCALATION_POLICIES_def)

lemma http_calls_append: "http_calls (xs @ ys) = http_calls xs @ http_calls ys"
  by (simp add: http_calls_def)

lemma http_calls_simps:
  "http_calls [] = []"
  "http_calls (Logged a e # evs) = http_calls evs"
  "http_calls (TraceFlattened sp v # evs) = http_calls evs"
  "http_calls (SetError er sp # evs) = http_calls evs"
  "http_calls (HttpPost p r # evs) = HttpPost p r # http_calls evs"
  "http_calls (HttpPut p r # evs) = HttpPut p r # http_calls evs"
  by (simp_all add: http_calls_def)

text \<open>
  Whatever the transport answers, a call of \<open>triggerIncident\<close> adds one HTTP call to the
  world, the POST of the request built from the arguments and their defaults.
\<close>

lemma triggerIncident_http_calls:
  "http_calls (events (snd (triggerIncident ext svc title message policyName incidentKey w))) =
     http_calls (events w) @
     [HttpPost ''/incidents''
        (triggerIncident_request svc title
           (case message of Some m \<Rightarrow> m | None \<Rightarrow> '''')
           (getPolicyId (case policyName of Some p \<Rightarrow> p | None \<Rightarrow> Everyone))
           (case incidentKey of Some k \<Rightarrow> k | None \<Rightarrow> ext_uuid ext (uuid_count w)))]"
  by (simp add: trigger_defs sink_defs Let_def http_calls_append http_calls_simps
      split: sum.splits option.splits prod.splits)


subsection \<open>triggerIncident: failures are absorbed\<close>

text \<open>
  C1. For every title, message, policy and dedup key and every behaviour of the transport,
  \<open>triggerIncident\<close> returns normally (its promise fulfils, it never rejects). If the POST
  throws, or answers with a status other than 201, the result is \<^verbatim>\<open>undefined\<close>, and the
  last two effects are the log line of the failure, which carries the title and the dedup
  key, and the attachment of the error to the span of the operation. The error is the one
  the transport threw, or the \<^verbatim>\<open>Error\<close> the code made for the unexpected status.
\<close>

theorem triggerIncident_never_throws:
  assumes k: "k = (case incidentKey of Some k' \<Rightarrow> k' | None \<Rightarrow> ext_uuid ext (uuid_count w))"
    and request: "request = triggerIncident_request svc title
           (case message of Some m \<Rightarrow> m | None \<Rightarrow> '''')
           (getPolicyId (case policyName of Some p \<Rightarrow> p | None \<Rightarrow> Everyone)) k"
    and answer: "answer = post (api svc) ''/incidents'' request"
    and e: "e = (case answer of
                Inl thrown \<Rightarrow> thrown
              | Inr res \<Rightarrow> Error (''failed to invoke pagerduty ('' @ title @ ''): '' @ ext_str ext (data res)))"
  shows "\<exists>r w'. triggerIncident ext svc title message policyName incidentKey w = (Inr r, w') \<and>
           ((\<forall>res. answer = Inr res \<longrightarrow> status res \<noteq> 201) \<longrightarrow>
              r = None \<and>
              (\<exists>pre. events w' = pre @
                 [Logged [LOG_TAG,
                    ''failed to start incident '' @ title @ '' ('' @ [CHR 0x27] @ k @ [CHR 0x27] @ '')'']
                    (Some e),
                  SetError e (Span ''PagerDutyService'' ''triggerIncident'')]))"
proof (cases answer)
  case (Inl thrown)
  with answer have "post (api svc) ''/incidents'' request = Inl thrown" by simp
  with k request e Inl show ?thesis
    by (cases incidentKey) (simp_all add: trigger_defs sink_defs quoted_def Let_def)
next
  case (Inr res)
  with answer have p: "post (api svc) ''/incidents'' request = Inr res" by simp
  show ?thesis
  proof (cases "status res = 201")
    case True
    with k request e Inr p show ?thesis
      by (cases incidentKey) (simp_all add: trigger_defs sink_defs quoted_def Let_def split: sum.splits)
  next
    case False
    with k request e Inr p show ?thesis
      by (cases incidentKey) (simp_all add: trigger_defs sink_defs quoted_def Let_def)
  qed
qed

theorem triggerIncident_never_throws_witness:
  "\<exists>r w'. triggerIncident stub_ext (stub_service (Inr \<lparr>status = 400, data = JNull\<rparr>))
             ''DB down'' None None None world0 = (Inr r, w') \<and> r = None \<and>
           (\<exists>pre. events w' = pre @
              [Logged [''[PagerDutyService]'', ''failed to start incident DB down ('uuid-')'']
                 (Some (Error ''failed to invoke pagerduty (DB down): <body>'')),
               SetError (Error ''failed to invoke pagerduty (DB down): <body>'')
                 (Span ''PagerDutyService'' ''triggerIncident'')])"
  using triggerIncident_never_throws [OF refl refl refl refl,
      where ext = stub_ext and svc = "stub_service (Inr \<lparr>status = 400, data = JNull\<rparr>)"
        and title = "''DB down''" and message = None and policyName = None
        and incidentKey = None and w = world0]
  by (simp add: stub_defs LOG_TAG_def SERVICE_NAME_def)

subsection \<open>triggerIncident: the handle of a created incident\<close>

text \<open>
  C2, as amended. When the POST answers with status 201 and the response body has an
  incident from which \<^verbatim>\<open>id\<close> and \<^verbatim>\<open>incident_key\<close> can be read (neither the body nor its
  incident is \<^verbatim>\<open>undefined\<close> or \<^verbatim>\<open>null\<close>), \<open>triggerIncident\<close> returns the handle made of
  exactly these two values. The scenario of the specification, the body
  \<^verbatim>\<open>{incident: {id: "INC1", incident_key: "abc"}}\<close>, is the witness.
\<close>

theorem triggerIncident_returns_handle:
  assumes "k = (case incidentKey of Some k' \<Rightarrow> k' | None \<Rightarrow> ext_uuid ext (uuid_count w))"
    and "request = triggerIncident_request svc title
           (case message of Some m \<Rightarrow> m | None \<Rightarrow> '''')
           (getPolicyId (case policyName of Some p \<Rightarrow> p | None \<Rightarrow> Everyone)) k"
    and "post (api svc) ''/incidents'' request = Inr res"
    and "status res = 201"
    and "getProp (data res) ''incident'' = Inr incident"
    and "getProp incident ''id'' = Inr i"
    and "getProp incident ''incident_key'' = Inr ik"
  shows "fst (triggerIncident ext svc title message policyName incidentKey w) =
           Inr (Some \<lparr>id' = i, key = ik\<rparr>)"
  using assms
  by (simp add: trigger_defs sink_defs Let_def split: option.splits)

theorem triggerIncident_returns_handle_witness:
  "fst (triggerIncident stub_ext
          (stub_service (Inr \<lparr>status = 201,
             data = JObj [(''incident'', JObj [(''id'', JStr ''INC1''), (''incident_key'', JStr ''abc'')])]\<rparr>))
          ''DB down'' None None None world0) =
     Inr (Some \<lparr>id' = JStr ''INC1'', key = JStr ''abc''\<rparr>)"
  by (rule triggerIncident_returns_handle [OF refl refl,
        where incident = "JObj [(''id'', JStr ''INC1''), (''incident_key'', JStr ''abc'')]"
          and res = "\<lparr>status = 201,
             data = JObj [(''incident'', JObj [(''id'', JStr ''INC1''), (''incident_key'', JStr ''abc'')])]\<rparr>"])
     (simp_all add: stub_defs)

text \<open>
  C2 as stated fails: not every answer with status 201 yields a handle. For the answer
  \<^verbatim>\<open>{status: 201, data: {}}\<close> the read of \<^verbatim>\<open>incident.id\<close> throws inside the \<^verbatim>\<open>try\<close> block,
  and the call returns \<^verbatim>\<open>undefined\<close>.
\<close>

theorem triggerIncident_no_handle_counterexample:
  "status \<lparr>status = 201, data = JObj []\<rparr> = 201 \<and>
   fst (triggerIncident stub_ext (stub_service (Inr \<lparr>status = 201, data = JObj []\<rparr>))
          ''DB down'' None None None world0) = Inr None"
  by (simp add: trigger_defs sink_defs stub_defs Let_def)

subsection \<open>triggerIncident: a 201 answer without a readable incident\<close>

text \<open>
  C10. When the POST answers with status 201 but reading \<^verbatim>\<open>incident.id\<close> or
  \<^verbatim>\<open>incident.incident_key\<close> off the response body throws, the error \<open>e\<close> of the first
  failing read is caught by the handler of the method: it is logged with the title and the
  dedup key, attached to the span, and the call returns \<^verbatim>\<open>undefined\<close> without throwing.
\<close>

theorem triggerIncident_malformed_body:
  assumes "k = (case incidentKey of Some k' \<Rightarrow> k' | None \<Rightarrow> ext_uuid ext (uuid_count w))"
    and "request = triggerIncident_request svc title
           (case message of Some m \<Rightarrow> m | None \<Rightarrow> '''')
           (getPolicyId (case policyName of Some p \<Rightarrow> p | None \<Rightarrow> Everyone)) k"
    and "post (api svc) ''/incidents'' request = Inr res"
    and "status res = 201"
    and "getProp (data res) ''incident'' = Inl e \<or>
         (\<exists>incident. getProp (data res) ''incident'' = Inr incident \<and>
            (getProp incident ''id'' = Inl e \<or>
             (\<exists>i. getProp incident ''id'' = Inr i \<and> getProp incident ''incident_key'' = Inl e)))"
  shows "\<exists>w'. triggerIncident ext svc title message policyName incidentKey w = (Inr None, w') \<and>
           (\<exists>pre. events w' = pre @
              [Logged [LOG_TAG, ''failed to start incident '' @ title @ '' ('' @ quoted k @ '')''] (Some e),
               SetError e (Span ''PagerDutyService'' ''triggerIncident'')])"
  using assms
  by (auto simp add: trigger_defs sink_defs Let_def split: option.splits)

theorem triggerIncident_malformed_body_witness:
  "\<exists>w'. triggerIncident stub_ext (stub_service (Inr \<lparr>status = 201, data = JObj []\<rparr>))
           ''DB down'' None None (Some ''abc'') world0 = (Inr None, w') \<and>
         (\<exists>pre. events w' = pre @
            [Logged [LOG_TAG, ''failed to start incident DB down ('' @ quoted ''abc'' @ '')'']
               (Some (TypeError ''Cannot read properties of undefined (reading 'id')'')),
             SetError (TypeError ''Cannot read properties of undefined (reading 'id')'')
               (Span ''PagerDutyService'' ''triggerIncident'')])"
  using triggerIncident_malformed_body [OF refl refl,
      where ext = stub_ext and svc = "stub_service (Inr \<lparr>status = 201, data = JObj []\<rparr>)"
        and title = "''DB down''" and message = None and policyName = None
        and incidentKey = "Some ''abc''" and w = world0
        and res = "\<lparr>status = 201, data = JObj []\<rparr>"
        and e = "TypeError ''Cannot read properties of undefined (reading 'id')''"]
  by (simp add: stub_defs)

subsection \<open>triggerIncident: defaults of the optional arguments\<close>




subsection \<open>triggerIncident: the request that is sent\<close>

text \<open>
  C7. Every call of \<open>triggerIncident\<close>, whatever the transport then answers, issues exactly
  one HTTP call: a POST to \<^verbatim>\<open>/incidents\<close> whose headers carry the fixed \<^verbatim>\<open>From\<close> address and
  whose data is the incident (type, title, the reference to the configured service, urgency
  \<^verbatim>\<open>high\<close>, the dedup key, and the body with the message as its details) together with the
  escalation policy of the identifier that the table gives for the policy.
\<close>

theorem triggerIncident_posts_once:
  "http_calls (events (snd (triggerIncident ext svc title message policyName incidentKey w))) =
     http_calls (events w) @
     [HttpPost ''/incidents''
        (JObj
          [(''headers'', JObj [(''From'', JStr ''ivan@0xparc.org'')]),
           (''data'', JObj
              [(''incident'', JObj
                 [(''type'', JStr ''incident''),
                  (''title'', JStr title),
                  (''service'', JObj
                     [(''id'', JStr (serviceId svc)),
                      (''type'', JStr ''service_reference'')]),
                  (''urgency'', JStr ''high''),
                  (''incident_key'', JStr
                     (case incidentKey of Some k \<Rightarrow> k | None \<Rightarrow> ext_uuid ext (uuid_count w))),
                  (''body'', JObj
                     [(''type'', JStr ''incident_body''),
                      (''details'', JStr (case message of Some m \<Rightarrow> m | None \<Rightarrow> ''''))])]),
               (''escalation_policy'', JObj
                  [(''id'', getPolicyId (case policyName of Some p \<Rightarrow> p | None \<Rightarrow> Everyone))])])])]"
  by (simp add: triggerIncident_http_calls) (simp add: triggerIncident_request_def)

theorem triggerIncident_posts_once_witness:
  "http_calls (events (snd (triggerIncident stub_ext
       (stub_service (Inl (Error ''connection refused'')))
       ''DB down'' (Some ''disk full'') (Some JustIvan) (Some ''abc'') world0))) =
     [HttpPost ''/incidents''
        (JObj
          [(''headers'', JObj [(''From'', JStr ''ivan@0xparc.org'')]),
           (''data'', JObj
              [(''incident'', JObj
                 [(''type'', JStr ''incident''),
                  (''title'', JStr ''DB down''),
                  (''service'', JObj
                     [(''id'', JStr ''SVC1''),
                      (''type'', JStr ''service_reference'')]),
                  (''urgency'', JStr ''high''),
                  (''incident_key'', JStr ''abc''),
                  (''body'', JObj
                     [(''type'', JStr ''incident_body''),
                      (''details'', JStr ''disk full'')])]),
               (''escalation_policy'', JObj [(''id'', JStr ''P3PE907'')])])])]"
  using triggerIncident_posts_once [where ext = stub_ext
      and svc = "stub_service (Inl (Error ''connection refused''))" and title = "''DB down''"
      and message = "Some ''disk full''" and policyName = "Some JustIvan"
      and incidentKey = "Some ''abc''" and w = world0]
  by (simp add: stub_defs http_calls_simps getPolicyId_cases)

subsection \<open>resolveIncident: failures are absorbed\<close>

text \<open>
  C3. For every incident id and every behaviour of the transport, \<open>resolveIncident\<close> returns
  normally, with no value. When the PUT answers with status 200, the effects are the
  announcement, the two span annotations around the call and, last, the log line of the
  confirmation; no error is attached to the span. When the PUT throws or answers with any
  other status, the last two effects are the attachment of the error to the span and the log
  line of the failure.
\<close>

theorem resolveIncident_never_throws:
  assumes answer: "answer = put (api svc) (''/incidents/'' @ i) resolveIncident_request"
    and e: "e = (case answer of
                Inl thrown \<Rightarrow> thrown
              | Inr res \<Rightarrow> Error (''failed to resolve pagerduty ('' @ i @ ''): '' @ ext_str ext (data res)))"
    and sp: "sp = Span ''PagerDutyService'' ''resolveIncident''"
  shows "\<exists>w'. resolveIncident ext svc i w = (Inr (), w') \<and>
           (\<forall>res. answer = Inr res \<and> status res = 200 \<longrightarrow>
              events w' = events w @
                [Logged [LOG_TAG, ''resolving incident '' @ quoted i @ '' by hitting '' @ quoted (''/incidents/'' @ i)] None,
                 TraceFlattened sp (JObj [(''request'', resolveIncident_request)]),
                 HttpPut (''/incidents/'' @ i) resolveIncident_request,
                 TraceFlattened sp (JObj [(''responseBody'', data res)]),
                 Logged [LOG_TAG, ''resolved incident '' @ quoted i] None]) \<and>
           ((\<forall>res. answer = Inr res \<longrightarrow> status res \<noteq> 200) \<longrightarrow>
              (\<exists>pre. events w' = pre @
                 [SetError e sp, Logged [LOG_TAG, ''failed to start incident '' @ i] (Some e)]))"
proof (cases answer)
  case (Inl thrown)
  with answer have "put (api svc) (''/incidents/'' @ i) resolveIncident_request = Inl thrown"
    by simp
  with e sp Inl show ?thesis
    by (simp add: resolve_defs sink_defs Let_def)
next
  case (Inr res)
  with answer have "put (api svc) (''/incidents/'' @ i) resolveIncident_request = Inr res"
    by simp
  with e sp Inr show ?thesis
    by (cases "status res = 200") (simp_all add: resolve_defs sink_defs Let_def)
qed

theorem resolveIncident_never_throws_witness:
  "\<exists>w'. resolveIncident stub_ext (stub_service (Inr \<lparr>status = 200, data = JUndefined\<rparr>)) ''INC1'' world0 =
           (Inr (), w') \<and>
         events w' =
           [Logged [LOG_TAG, ''resolving incident '' @ quoted ''INC1'' @ '' by hitting '' @ quoted ''/incidents/INC1''] None,
            TraceFlattened (Span ''PagerDutyService'' ''resolveIncident'') (JObj [(''request'', resolveIncident_request)]),
            HttpPut ''/incidents/INC1'' resolveIncident_request,
            TraceFlattened (Span ''PagerDutyService'' ''resolveIncident'') (JObj [(''responseBody'', JUndefined)]),
            Logged [LOG_TAG, ''resolved incident '' @ quoted ''INC1''] None]"
  using resolveIncident_never_throws [OF refl refl refl,
      where ext = stub_ext and svc = "stub_service (Inr \<lparr>status = 200, data = JUndefined\<rparr>)"
        and i = "''INC1''" and w = world0]
  by (simp add: stub_defs)

subsection \<open>resolveIncident: the request that is sent\<close>

text \<open>
  Whatever the transport answers, a call of \<open>resolveIncident\<close> adds one HTTP call to the
  world, the PUT of the fixed request to the path of the incident.
\<close>

lemma resolveIncident_http_calls:
  "http_calls (events (snd (resolveIncident ext svc i w))) =
     http_calls (events w) @ [HttpPut (''/incidents/'' @ i) resolveIncident_request]"
  by (simp add: resolve_defs sink_defs Let_def http_calls_append http_calls_simps
      split: sum.splits)

text \<open>
  C8. For every incident id, \<open>resolveIncident\<close> issues exactly one HTTP call: a PUT to
  \<^verbatim>\<open>/incidents/{id}\<close> whose data marks the incident, by an incident reference, as resolved.
  Its headers are the headers of the request that \<open>triggerIncident\<close> sends.
\<close>

theorem resolveIncident_puts_once:
  "http_calls (events (snd (resolveIncident ext svc i w))) =
     http_calls (events w) @
     [HttpPut (''/incidents/'' @ i)
        (JObj
          [(''headers'', JObj [(''From'', JStr ''ivan@0xparc.org'')]),
           (''data'', JObj
              [(''incident'', JObj
                 [(''type'', JStr ''incident_reference''),
                  (''status'', JStr ''resolved'')])])])] \<and>
   getProp resolveIncident_request ''headers'' =
     getProp (triggerIncident_request svc title message policyId incidentKey) ''headers''"
  by (simp add: resolveIncident_http_calls)
     (simp add: resolveIncident_request_def triggerIncident_request_def)

theorem resolveIncident_puts_once_witness:
  "http_calls (events (snd (resolveIncident stub_ext
       (stub_service (Inl (Error ''connection refused''))) ''INC1'' world0))) =
     [HttpPut ''/incidents/INC1''
        (JObj
          [(''headers'', JObj [(''From'', JStr ''ivan@0xparc.org'')]),
           (''data'', JObj
              [(''incident'', JObj
                 [(''type'', JStr ''incident_reference''),
                  (''status'', JStr ''resolved'')])])])]"
  using resolveIncident_puts_once [where ext = stub_ext
      and svc = "stub_service (Inl (Error ''connection refused''))" and i = "''INC1''" and w = world0]
  by (simp add: stub_defs http_calls_simps)

subsection \<open>startPagerDutyService\<close>

text \<open>
  C4, as amended. \<open>startPagerDutyService\<close> returns a service, built from the two values,
  exactly when both \<^verbatim>\<open>PAGER_DUTY_API_KEY\<close> and \<^verbatim>\<open>PAGER_DUTY_SERVICE_ID\<close> are set to non-empty
  strings; it then logs only the line of the attempt. If either variable is unset or set to
  the empty string it returns \<^verbatim>\<open>null\<close> and logs one diagnostic after the line of the attempt.
  In every case it issues no HTTP call.
\<close>

theorem startPagerDutyService_started_iff:
  "(if (\<exists>token. env ''PAGER_DUTY_API_KEY'' = Some token \<and> token \<noteq> '''') \<and>
       (\<exists>sid. env ''PAGER_DUTY_SERVICE_ID'' = Some sid \<and> sid \<noteq> '''')
    then \<exists>token sid. env ''PAGER_DUTY_API_KEY'' = Some token \<and> env ''PAGER_DUTY_SERVICE_ID'' = Some sid \<and>
           startPagerDutyService ext env w =
             (Some \<lparr>api = ext_api ext token, serviceId = sid\<rparr>,
              w\<lparr>events := events w @ [Logged [''[INIT] attempting to start pager duty''] None]\<rparr>)
    else fst (startPagerDutyService ext env w) = None \<and>
         (\<exists>msg. events (snd (startPagerDutyService ext env w)) =
            events w @ [Logged [''[INIT] attempting to start pager duty''] None, Logged [msg] None])) \<and>
   http_calls (events (snd (startPagerDutyService ext env w))) = http_calls (events w)"
  by (auto simp add: startPagerDutyService_def env_truthy_def new_PagerDutyService_def logger_def emit_def
      Let_def http_calls_append http_calls_simps split: option.splits)

theorem startPagerDutyService_started_iff_witness:
  "startPagerDutyService stub_ext
      (map_of [(''PAGER_DUTY_API_KEY'', ''token''), (''PAGER_DUTY_SERVICE_ID'', ''SVC1'')]) world0 =
     (Some \<lparr>api = ext_api stub_ext ''token'', serviceId = ''SVC1''\<rparr>,
      world0\<lparr>events := events world0 @ [Logged [''[INIT] attempting to start pager duty''] None]\<rparr>)"
  using startPagerDutyService_started_iff [where ext = stub_ext and w = world0
      and env = "map_of [(''PAGER_DUTY_API_KEY'', ''token''), (''PAGER_DUTY_SERVICE_ID'', ''SVC1'')]"]
  by simp

text \<open>
  C4 as stated fails: with \<^verbatim>\<open>PAGER_DUTY_API_KEY\<close> present but empty and
  \<^verbatim>\<open>PAGER_DUTY_SERVICE_ID\<close> present, both variables are present and the result is
  \<^verbatim>\<open>null\<close>, because the test \<^verbatim>\<open>!process.env.PAGER_DUTY_API_KEY\<close> holds for the empty string.
\<close>

theorem startPagerDutyService_empty_value_counterexample:
  "map_of [(''PAGER_DUTY_API_KEY'', ''''), (''PAGER_DUTY_SERVICE_ID'', ''SVC1'')] ''PAGER_DUTY_API_KEY'' = Some '''' \<and>
   map_of [(''PAGER_DUTY_API_KEY'', ''''), (''PAGER_DUTY_SERVICE_ID'', ''SVC1'')] ''PAGER_DUTY_SERVICE_ID'' = Some ''SVC1'' \<and>
   fst (startPagerDutyService stub_ext
          (map_of [(''PAGER_DUTY_API_KEY'', ''''), (''PAGER_DUTY_SERVICE_ID'', ''SVC1'')]) world0) = None"
  by (simp add: startPagerDutyService_def env_truthy_def Let_def)

text \<open>
  C9. When \<^verbatim>\<open>PAGER_DUTY_API_KEY\<close> is present and \<^verbatim>\<open>PAGER_DUTY_SERVICE_ID\<close> is absent,
  \<open>startPagerDutyService\<close> returns \<^verbatim>\<open>null\<close>, and the diagnostic it logs names
  \<^verbatim>\<open>PAGER_DUTY_API_KEY\<close>, not \<^verbatim>\<open>PAGER_DUTY_SERVICE_ID\<close>: the outcome and the log are those of
  any environment in which \<^verbatim>\<open>PAGER_DUTY_API_KEY\<close> itself is absent.
\<close>

theorem startPagerDutyService_names_api_key:
  assumes "env ''PAGER_DUTY_API_KEY'' = Some token"
    and "env ''PAGER_DUTY_SERVICE_ID'' = None"
  shows "startPagerDutyService ext env w =
           (None,
            w\<lparr>events := events w @
               [Logged [''[INIT] attempting to start pager duty''] None,
                Logged [''[INIT] can't start pager duty - missing environment variable PAGER_DUTY_API_KEY''] None]\<rparr>) \<and>
         (\<forall>env'. env' ''PAGER_DUTY_API_KEY'' = None \<longrightarrow>
            startPagerDutyService ext env' w = startPagerDutyService ext env w)"
  using assms
  by (simp add: startPagerDutyService_def env_truthy_def logger_def emit_def Let_def)

theorem startPagerDutyService_names_api_key_witness:
  "startPagerDutyService stub_ext (map_of [(''PAGER_DUTY_API_KEY'', ''token'')]) world0 =
     (None,
      world0\<lparr>events := events world0 @
         [Logged [''[INIT] attempting to start pager duty''] None,
          Logged [''[INIT] can't start pager duty - missing environment variable PAGER_DUTY_API_KEY''] None]\<rparr>)"
  using startPagerDutyService_names_api_key [where ext = stub_ext and w = world0
      and env = "map_of [(''PAGER_DUTY_API_KEY'', ''token'')]" and token = "''token''"]
  by simp

subsection \<open>The escalation-policy table\<close>

lemma IncidentPolicy_UNIV: "(UNIV :: IncidentPolicy set) = {Everyone, JustIvan, JustRichard}"
  using IncidentPolicy.exhaust by auto

text \<open>
  C5, as amended. The enumeration has three values, not four. For each of them
  \<open>getPolicyId\<close> returns a non-empty identifier string, and the table has exactly three
  entries, one for each value.
\<close>

theorem getPolicyId_total:
  "(\<forall>name. \<exists>pid. getPolicyId name = JStr pid \<and> pid \<noteq> '''') \<and>
   card (UNIV :: IncidentPolicy set) = 3 \<and>
   length ESCALATION_POLICIES = 3 \<and>
   distinct (map fst ESCALATION_POLICIES) \<and>
   set (map fst ESCALATION_POLICIES) = UNIV"
proof -
  have "\<exists>pid. getPolicyId name = JStr pid \<and> pid \<noteq> ''''" for name
    by (cases name) (simp_all add: getPolicyId_cases)
  moreover have "card (UNIV :: IncidentPolicy set) = 3"
    by (simp add: IncidentPolicy_UNIV)
  moreover have "length ESCALATION_POLICIES = 3" "distinct (map fst ESCALATION_POLICIES)"
    "set (map fst ESCALATION_POLICIES) = UNIV"
    by (simp_all add: ESCALATION_POLICIES_def IncidentPolicy_UNIV)
  ultimately show ?thesis by blast
qed

theorem getPolicyId_total_witness:
  "\<exists>pid. getPolicyId JustRichard = JStr pid \<and> pid \<noteq> ''''"
  using getPolicyId_total by blast

text \<open>
  C5 as stated fails: there are no four values of the enumeration for the table of three
  entries to give an identifier each.
\<close>

theorem four_policies_counterexample:
  "\<not> (card (UNIV :: IncidentPolicy set) = 4 \<and>
      (\<forall>name. \<exists>pid. getPolicyId name = JStr pid \<and> pid \<noteq> '''') \<and>
      length ESCALATION_POLICIES = 3)"
  by (simp add: IncidentPolicy_UNIV)

end
